theory Spec2Isabelle
  imports Main "HOL-Library.Sublist"
begin

section \<open>IntelliFlow API gateway: configuration, token validation, auth middleware\<close>

text \<open>
  A shallow embedding of the gateway's authentication path:
  \<^item> \<^verbatim>\<open>config/index.ts\<close>: the environment-based configuration and its start-up check;
  \<^item> \<^verbatim>\<open>services/descope.service.ts\<close>: \<^verbatim>\<open>DescopeService\<close> with \<^verbatim>\<open>getJWKS\<close>,
    \<^verbatim>\<open>validateToken\<close> and \<^verbatim>\<open>getMockClaims\<close>;
  \<^item> \<^verbatim>\<open>middleware/auth.middleware.ts\<close>: \<^verbatim>\<open>authMiddleware\<close>;
  \<^item> \<^verbatim>\<open>routes/proxy.routes.ts\<close>: the router that guards and proxies \<^verbatim>\<open>/emails\<close> and
    \<^verbatim>\<open>/calendar\<close>.

  Promises are modelled by their settled value: a rejection or a thrown \<^verbatim>\<open>Error\<close> is
  \<open>Inl message\<close> (the handlers only ever read \<^verbatim>\<open>error.message\<close>), a fulfilment is \<open>Inr\<close>.
  The mutable field \<^verbatim>\<open>DescopeService.jwks\<close> is threaded through as explicit state, and the
  calls to the logger are returned as a list of events.
\<close>

subsection \<open>Configuration (\<^verbatim>\<open>config/index.ts\<close>)\<close>

text \<open>\<^verbatim>\<open>process.env\<close>: a dictionary from variable names to strings.\<close>

type_synonym env = "string \<rightharpoonup> string"

text \<open>
  \<^verbatim>\<open>process.env.X || d\<close>: an unset variable is \<^verbatim>\<open>undefined\<close> and an empty one is \<^verbatim>\<open>''\<close>;
  both are falsy and give the default.
\<close>

definition env_or :: "env \<Rightarrow> string \<Rightarrow> string \<Rightarrow> string" where
  "env_or e k d = (case e k of None \<Rightarrow> d | Some v \<Rightarrow> if v = [] then d else v)"

text \<open>
  The fields of \<^verbatim>\<open>config\<close> that the authentication path and the proxy router read.
  (\<^verbatim>\<open>port\<close>, \<^verbatim>\<open>corsOrigins\<close>, \<^verbatim>\<open>rateLimitPerMinute\<close> and \<^verbatim>\<open>logLevel\<close> are read by
  neither and are left out.)
\<close>

record config =
  nodeEnv :: string
  agentAUrl :: string
  agentBUrl :: string
  descopeProjectId :: string

definition load_config :: "env \<Rightarrow> config" where
  "load_config e =
     \<lparr> nodeEnv = env_or e ''NODE_ENV'' ''development'',
       agentAUrl = env_or e ''AGENT_A_URL'' ''http://localhost:8001'',
       agentBUrl = env_or e ''AGENT_B_URL'' ''http://localhost:8002'',
       descopeProjectId = env_or e ''DESCOPE_PROJECT_ID'' [] \<rparr>"

text \<open>
  Loading the module evaluates the object literal and then the check
  \<^verbatim>\<open>if (!config.descopeProjectId && config.nodeEnv === 'production')\<close>, which prints to
  \<^verbatim>\<open>console.error\<close> and calls \<^verbatim>\<open>process.exit(1)\<close>. \<open>Inl\<close> carries the printed line and the exit
  code; \<open>Inr\<close> is the configuration the rest of the process sees.
\<close>

definition startup :: "env \<Rightarrow> (string \<times> nat) + config" where
  "startup e =
     (let c = load_config e
      in if descopeProjectId c = [] \<and> nodeEnv c = ''production''
         then Inl (''ERROR: DESCOPE_PROJECT_ID is required in production'', 1)
         else Inr c)"

subsection \<open>Token claims and the verified payload (\<^verbatim>\<open>services/descope.service.ts\<close>)\<close>

text \<open>
  A JSON value as JavaScript sees it at run time, and its truthiness. The casts of
  TypeScript are unchecked, so a field that a method is called on is kept with its
  run-time value.
\<close>

datatype js_value =
  JsNull
| JsBoolean bool
| JsNumber int
| JsString string
| JsArray "js_value list"
| JsObject "(string \<times> js_value) list"

fun truthy :: "js_value \<Rightarrow> bool" where
  "truthy JsNull = False"
| "truthy (JsBoolean b) = b"
| "truthy (JsNumber n) = (n \<noteq> 0)"
| "truthy (JsString s) = (s \<noteq> [])"
| "truthy (JsArray vs) = True"
| "truthy (JsObject kvs) = True"

text \<open>
  The payload that \<^verbatim>\<open>jose.jwtVerify\<close> resolves to. Every field is optional in
  \<^verbatim>\<open>jose.JWTPayload\<close>; \<open>None\<close> is an absent field (\<^verbatim>\<open>undefined\<close>). The registered claims
  have the types of \<^verbatim>\<open>jose.JWTPayload\<close>. \<^verbatim>\<open>scopes\<close> and \<^verbatim>\<open>permissions\<close> have the type the
  source casts them to (\<^verbatim>\<open>as string[]\<close>): they are only copied, which cannot fail.
  \<^verbatim>\<open>scope\<close> is cast \<^verbatim>\<open>as string\<close> and then has \<^verbatim>\<open>split\<close> called on it, which fails on a
  value that is not a string, so it is kept as a run-time value.
\<close>

record jwt_payload =
  payload_sub :: "string option"
  payload_email :: "string option"
  payload_name :: "string option"
  payload_scopes :: "string list option"
  payload_scope :: "js_value option"
  payload_permissions :: "string list option"
  payload_exp :: "int option"
  payload_nbf :: "int option"
  payload_iat :: "int option"
  payload_iss :: "string option"
  payload_aud :: "string option"

text \<open>\<^verbatim>\<open>interface TokenClaims\<close>.\<close>

record token_claims =
  claims_sub :: string
  claims_email :: "string option"
  claims_name :: "string option"
  claims_scopes :: "string list"
  claims_exp :: int
  claims_iat :: int
  claims_iss :: string
  claims_aud :: "string option"

text \<open>The options object handed to \<^verbatim>\<open>jose.jwtVerify\<close>.\<close>

record verify_options =
  issuer :: string
  audience :: string

text \<open>
  \<^verbatim>\<open>jose.jwtVerify\<close> belongs to an external library and is a parameter of \<^verbatim>\<open>validateToken\<close>
  in the model: given the token, the key-set resolver (identified by the URL it was
  created for), the options and the current time in epoch seconds, it either rejects with
  an error message (bad envelope, key set unreachable, bad signature, failed claim check)
  or resolves to the token's payload.
\<close>

type_synonym jwt_verify = "string \<Rightarrow> string \<Rightarrow> verify_options \<Rightarrow> int \<Rightarrow> string + jwt_payload"

text \<open>
  Where a property depends on what the library checks, the library is taken as its
  documentation describes it: \<^verbatim>\<open>jwtVerify\<close> verifies the compact JWS format and the
  signature, then validates the claims set against the options. The first step (parsing
  the envelope, resolving the key from the key set, checking the signature, decoding the
  payload) stays a parameter: given the token and the key-set resolver it rejects with a
  message or yields the payload.
\<close>

type_synonym compact_verify = "string \<Rightarrow> string \<Rightarrow> string + jwt_payload"

text \<open>
  Modelled from the spec: the claim checks of the Token Verifier (section 4.3, steps 4 to
  6: expiry after the current time, issuer equal to the trusted issuer, audience equal to
  the expected audience), which the gateway leaves to the library jose; the library is
  not part of the repository. Order, required claims and messages are those of the
  library's documentation for the two options the gateway passes: with \<^verbatim>\<open>issuer\<close> and
  \<^verbatim>\<open>audience\<close> given, the claims \<^verbatim>\<open>iss\<close> and \<^verbatim>\<open>aud\<close> are required and must equal them; a
  \<^verbatim>\<open>nbf\<close> after the current time fails; an \<^verbatim>\<open>exp\<close> less than or equal to the current time
  fails with \<^verbatim>\<open>JWTExpired\<close>, whose message is \<^verbatim>\<open>"exp" claim timestamp check failed\<close>. The
  clock tolerance is 0, no option being given; \<^verbatim>\<open>sub\<close> and \<^verbatim>\<open>exp\<close> are not required.
\<close>

definition validate_claims :: "jwt_payload \<Rightarrow> verify_options \<Rightarrow> int \<Rightarrow> string + jwt_payload" where
  \<open>validate_claims payload opts now =
     (if payload_iss payload = None then Inl ''missing required "iss" claim''
      else if payload_aud payload = None then Inl ''missing required "aud" claim''
      else if payload_iss payload \<noteq> Some (issuer opts) then Inl ''unexpected "iss" claim value''
      else if payload_aud payload \<noteq> Some (audience opts)
      then Inl ''unexpected "aud" claim value''
      else if payload_nbf payload \<noteq> None \<and> the (payload_nbf payload) > now
      then Inl ''"nbf" claim timestamp check failed''
      else if payload_exp payload \<noteq> None \<and> the (payload_exp payload) \<le> now
      then Inl ''"exp" claim timestamp check failed''
      else Inr payload)\<close>

text \<open>
  Modelled from the spec: the Token Verifier's steps 1 to 6, which the gateway leaves to
  \<^verbatim>\<open>jwtVerify\<close> of the library jose, not part of the repository: the signature step
  followed by the validation of the claims set, as the library's documentation has it.
\<close>

definition jose_jwtVerify :: "compact_verify \<Rightarrow> jwt_verify" where
  "jose_jwtVerify compactVerify token ks opts now =
     (case compactVerify token ks of
        Inl msg \<Rightarrow> Inl msg
      | Inr payload \<Rightarrow> validate_claims payload opts now)"

text \<open>The logger calls made on the authentication path: message and, where given, the error text.\<close>

datatype log_event =
  LogDebug string
| LogWarn string string
| LogError string string

text \<open>
  \<^verbatim>\<open>class DescopeService\<close>: \<^verbatim>\<open>jwks\<close> is \<^verbatim>\<open>null\<close> until the first call of \<^verbatim>\<open>getJWKS\<close>; the
  constructor copies \<^verbatim>\<open>config.descopeProjectId\<close>.
\<close>

record descope_service =
  jwks :: "string option"
  projectId :: string

definition new_DescopeService :: "config \<Rightarrow> descope_service" where
  "new_DescopeService cfg = \<lparr> jwks = None, projectId = descopeProjectId cfg \<rparr>"

text \<open>
  \<^verbatim>\<open>getJWKS\<close>: create the remote key-set resolver on first use, then reuse it. The resolver
  is identified by its URL; creating it fetches nothing.
\<close>

definition getJWKS :: "descope_service \<Rightarrow> string \<times> descope_service" where
  "getJWKS svc =
     (case jwks svc of
        None \<Rightarrow>
          (let jwksUri = ''https://api.descope.com/'' @ projectId svc @ ''/.well-known/jwks.json''
           in (jwksUri, svc\<lparr>jwks := Some jwksUri\<rparr>))
      | Some k \<Rightarrow> (k, svc))"

text \<open>
  \<^verbatim>\<open>getMockClaims\<close>; \<open>now\<close> is \<^verbatim>\<open>Math.floor(Date.now() / 1000)\<close>. The token is not looked at.
\<close>

definition getMockClaims :: "int \<Rightarrow> string \<Rightarrow> token_claims" where
  "getMockClaims now token =
     \<lparr> claims_sub = ''dev_user_123'',
       claims_email = Some ''dev@intelliflow.local'',
       claims_name = Some ''Development User'',
       claims_scopes = [''email.read'', ''email.summarize'', ''calendar.read'', ''calendar.write''],
       claims_exp = now + 3600,
       claims_iat = now,
       claims_iss = ''intelliflow-dev'',
       claims_aud = None \<rparr>"

text \<open>
  \<^verbatim>\<open>String.prototype.split\<close> with a one-character separator: the pieces between the
  separators, empty pieces included (\<^verbatim>\<open>'a  b'.split(' ')\<close> is \<^verbatim>\<open>['a', '', 'b']\<close>).
\<close>

fun split_on :: "char \<Rightarrow> string \<Rightarrow> string list" where
  "split_on c [] = [[]]"
| "split_on c (x # xs) =
     (if x = c then [] # split_on c xs
      else (case split_on c xs of
              [] \<Rightarrow> [[x]]
            | w # ws \<Rightarrow> (x # w) # ws))"

text \<open>
  The scope extraction of \<^verbatim>\<open>validateToken\<close>. The tests are JavaScript truthiness: an array
  is truthy even when empty, a string is truthy unless empty, \<^verbatim>\<open>undefined\<close> is falsy.
  \<^verbatim>\<open>scope.split(' ')\<close> on a truthy value that is not a string throws a \<^verbatim>\<open>TypeError\<close> (no
  JSON value but a string has a method \<^verbatim>\<open>split\<close>); \<open>Inl\<close> carries its message.
\<close>

definition extract_scopes :: "jwt_payload \<Rightarrow> string + string list" where
  "extract_scopes payload =
     (case payload_scopes payload of
        Some ss \<Rightarrow> Inr ss
      | None \<Rightarrow>
          (if payload_scope payload \<noteq> None \<and> truthy (the (payload_scope payload))
           then (case the (payload_scope payload) of
                   JsString scope \<Rightarrow> Inr (split_on CHR '' '' scope)
                 | _ \<Rightarrow> Inl ''scope.split is not a function'')
           else (case payload_permissions payload of
                   Some ps \<Rightarrow> Inr ps
                 | None \<Rightarrow> Inr [])))"

text \<open>
  \<^verbatim>\<open>x || d\<close> on a string or a number, and the object literal returned on the verified
  path, built from the payload and the extracted scopes.
\<close>

definition str_or :: "string option \<Rightarrow> string \<Rightarrow> string" where
  "str_or v d = (case v of None \<Rightarrow> d | Some s \<Rightarrow> if s = [] then d else s)"

definition num_or :: "int option \<Rightarrow> int \<Rightarrow> int" where
  "num_or v d = (case v of None \<Rightarrow> d | Some n \<Rightarrow> if n = 0 then d else n)"

definition claims_of_payload :: "jwt_payload \<Rightarrow> string list \<Rightarrow> token_claims" where
  "claims_of_payload payload scopes =
     \<lparr> claims_sub = str_or (payload_sub payload) [],
       claims_email = payload_email payload,
       claims_name = payload_name payload,
       claims_scopes = scopes,
       claims_exp = num_or (payload_exp payload) 0,
       claims_iat = num_or (payload_iat payload) 0,
       claims_iss = str_or (payload_iss payload) [],
       claims_aud = payload_aud payload \<rparr>"

text \<open>
  \<^verbatim>\<open>validateToken\<close>. The result is the settled promise, the service after the call and the
  logger calls. The \<^verbatim>\<open>catch\<close> block rethrows every error as
  \<^verbatim>\<open>Token validation failed: ${error.message}\<close>.
\<close>

definition validateToken ::
  "jwt_verify \<Rightarrow> config \<Rightarrow> int \<Rightarrow> descope_service \<Rightarrow> string
     \<Rightarrow> (string + token_claims) \<times> descope_service \<times> log_event list" where
  "validateToken jwtVerify cfg now svc token =
     (if projectId svc = [] \<or> nodeEnv cfg = ''development''
      then (Inr (getMockClaims now token), svc,
            [LogDebug ''Using mock token validation (development mode)''])
      else
        (let (ks, svc') = getJWKS svc
         in case jwtVerify token ks
                  \<lparr> issuer = ''https://api.descope.com/'' @ projectId svc,
                    audience = projectId svc \<rparr> now of
              Inl msg \<Rightarrow>
                (Inl (''Token validation failed: '' @ msg), svc',
                 [LogError ''Token validation failed'' msg])
            | Inr payload \<Rightarrow>
                (case extract_scopes payload of
                   Inl msg \<Rightarrow>
                     (Inl (''Token validation failed: '' @ msg), svc',
                      [LogError ''Token validation failed'' msg])
                 | Inr scopes \<Rightarrow> (Inr (claims_of_payload payload scopes), svc', []))))"

subsection \<open>The auth middleware (\<^verbatim>\<open>middleware/auth.middleware.ts\<close>)\<close>

definition PUBLIC_PATHS :: "string list" where
  "PUBLIC_PATHS = [''/'', ''/health'', ''/api/auth/validate'', ''/api/auth/refresh'']"

text \<open>\<^verbatim>\<open>AuthenticatedRequest.user\<close>.\<close>

record user =
  user_id :: string
  user_email :: "string option"
  user_scopes :: "string list"

text \<open>The parts of the request the middleware and the router read or write.\<close>

record request =
  req_path :: string
  req_authorization :: "string option"
  req_user :: "user option"

text \<open>\<^verbatim>\<open>res.status(s).json({ error: { code, message } })\<close>.\<close>

record response =
  status :: nat
  code :: string
  message :: string

text \<open>A middleware either hands the request on (\<^verbatim>\<open>next()\<close>) or answers it.\<close>

datatype outcome = Next request | Respond response

definition authMiddleware ::
  "jwt_verify \<Rightarrow> config \<Rightarrow> int \<Rightarrow> descope_service \<Rightarrow> request
     \<Rightarrow> outcome \<times> descope_service \<times> log_event list" where
  "authMiddleware jwtVerify cfg now svc req =
     (if req_path req \<in> set PUBLIC_PATHS then (Next req, svc, [])
      else
        (case req_authorization req of
           None \<Rightarrow>
             (Respond \<lparr> status = 401, code = ''MISSING_TOKEN'',
                        message = ''Authorization header with Bearer token required'' \<rparr>, svc, [])
         | Some authHeader \<Rightarrow>
             (if \<not> prefix ''Bearer '' authHeader
              then (Respond \<lparr> status = 401, code = ''MISSING_TOKEN'',
                               message = ''Authorization header with Bearer token required'' \<rparr>,
                    svc, [])
              else
                (let token = drop 7 authHeader
                 in case validateToken jwtVerify cfg now svc token of
                      (Inr claims, svc', evs) \<Rightarrow>
                        (Next (req\<lparr>req_user :=
                                 Some \<lparr> user_id = claims_sub claims,
                                        user_email = claims_email claims,
                                        user_scopes = claims_scopes claims \<rparr>\<rparr>),
                         svc', evs @ [LogDebug ''User authenticated''])
                    | (Inl msg, svc', evs) \<Rightarrow>
                        (Respond \<lparr> status = 401, code = ''UNAUTHORIZED'',
                                   message = (if msg = [] then ''Authentication failed'' else msg) \<rparr>,
                         svc', evs @ [LogWarn ''Authentication failed'' msg])))))"

subsection \<open>The proxy router (\<^verbatim>\<open>routes/proxy.routes.ts\<close>)\<close>

datatype agent = AgentA | AgentB

text \<open>
  A handler mounted with \<^verbatim>\<open>router.use(path, ...)\<close> sees the paths equal to its mount point
  or below it. The router is created with the defaults, so the match ignores the case of
  the ASCII letters; the mount points of this router are written in lower case.
\<close>

definition lower_char :: "char \<Rightarrow> char" where
  "lower_char c =
     (case map_of (zip ''ABCDEFGHIJKLMNOPQRSTUVWXYZ'' ''abcdefghijklmnopqrstuvwxyz'') c of
        Some l \<Rightarrow> l
      | None \<Rightarrow> c)"

definition mounted_at :: "string \<Rightarrow> string \<Rightarrow> bool" where
  "mounted_at mnt p =
     (map lower_char p = map lower_char mnt
      \<or> prefix (map lower_char mnt @ ''/'') (map lower_char p))"

text \<open>
  What the router does with a request: answer it, proxy it to an agent (with the target
  URL taken from the configuration), or leave it to the handlers after the router.
\<close>

datatype routed = Answered response | Proxied agent string request | Unhandled request

text \<open>
  \<^verbatim>\<open>router.use(authMiddleware)\<close>, then \<^verbatim>\<open>router.use('/emails', ...)\<close> and
  \<^verbatim>\<open>router.use('/calendar', ...)\<close> in that order.
\<close>

definition proxy_router ::
  "jwt_verify \<Rightarrow> config \<Rightarrow> int \<Rightarrow> descope_service \<Rightarrow> request
     \<Rightarrow> routed \<times> descope_service \<times> log_event list" where
  "proxy_router jwtVerify cfg now svc req =
     (case authMiddleware jwtVerify cfg now svc req of
        (Respond r, svc', evs) \<Rightarrow> (Answered r, svc', evs)
      | (Next req', svc', evs) \<Rightarrow>
          (if mounted_at ''/emails'' (req_path req')
           then (Proxied AgentA (agentAUrl cfg) req', svc', evs)
           else if mounted_at ''/calendar'' (req_path req')
           then (Proxied AgentB (agentBUrl cfg) req', svc', evs)
           else (Unhandled req', svc', evs)))"

subsection \<open>The scope enforcer\<close>

text \<open>
  The gateway sources hold no scope check: the middleware only copies the scope list onto
  the request. The enforcer runs in the agents, whose code is not among these sources, so
  its decision rule is taken from the specification.
\<close>

type_synonym hierarchy = "(string \<times> string) list"

datatype deny_reason = missing_scope string

datatype decision = Allow | Deny deny_reason

text \<open>
  Modelled from the spec: the default hierarchy table of the Scope Enforcer, which is
  missing from the sources. The table lists the pairs \<open>(s, r)\<close> for which holding \<open>s\<close>
  implies \<open>r\<close>; by default there is no implication.
\<close>

definition default_hierarchy :: hierarchy where
  "default_hierarchy = []"

text \<open>
  Modelled from the spec: the Scope Enforcer's \<^verbatim>\<open>authorize(assertion, required)\<close>, which is
  missing from the sources. It allows if and only if \<open>required\<close> is among the scopes of the
  assertion or some scope of the assertion implies it by the hierarchy table; a denial
  carries the reason \<^verbatim>\<open>missing_scope\<close> with the required scope.
\<close>

definition authorize :: "hierarchy \<Rightarrow> string list \<Rightarrow> string \<Rightarrow> decision" where
  "authorize table held required =
     (if required \<in> set held \<or> (\<exists>s \<in> set held. (s, required) \<in> set table)
      then Allow
      else Deny (missing_scope required))"

subsection \<open>Scope encodings\<close>

text \<open>
  The space-delimited encoding of a scope list (the inverse of \<^verbatim>\<open>split(' ')\<close> on lists of
  scope values), and what it means for a payload to carry a list of scope values in
  exactly one of the three forms.
\<close>

fun join_sp :: "string list \<Rightarrow> string" where
  "join_sp [] = []"
| "join_sp [x] = x"
| "join_sp (x # y # ys) = x @ CHR '' '' # join_sp (y # ys)"

text \<open>A scope value is a non-empty string without a space.\<close>

definition scope_value :: "string \<Rightarrow> bool" where
  "scope_value s = (s \<noteq> [] \<and> CHR '' '' \<notin> set s)"

datatype scope_form = ScopeString | ScopesArray | PermissionsArray

definition carries :: "jwt_payload \<Rightarrow> scope_form \<Rightarrow> string list \<Rightarrow> bool" where
  "carries payload form xs =
     (case form of
        ScopeString \<Rightarrow>
          payload_scope payload = Some (JsString (join_sp xs)) \<and> payload_scopes payload = None
          \<and> payload_permissions payload = None
      | ScopesArray \<Rightarrow>
          payload_scopes payload = Some xs \<and> payload_scope payload = None
          \<and> payload_permissions payload = None
      | PermissionsArray \<Rightarrow>
          payload_permissions payload = Some xs \<and> payload_scopes payload = None
          \<and> payload_scope payload = None)"

subsection \<open>Concrete instances\<close>

text \<open>
  A small world to run the model on. The well-formed tokens in circulation are those of a
  table, each with its payload and with whether its signature is genuine; any other
  string is not a compact JWS. The key set of the identity provider is reachable or not.
\<close>

definition sample_compactVerify :: "(string \<times> bool \<times> jwt_payload) list \<Rightarrow> bool \<Rightarrow> compact_verify" where
  "sample_compactVerify tokens reachable token ks =
     (case map_of tokens token of
        None \<Rightarrow> Inl ''Invalid Compact JWS''
      | Some (genuine, p) \<Rightarrow>
          if \<not> reachable then Inl ''request timed out''
          else if \<not> genuine then Inl ''signature verification failed''
          else Inr p)"

definition sample_jwtVerify :: "(string \<times> bool \<times> jwt_payload) list \<Rightarrow> bool \<Rightarrow> jwt_verify" where
  "sample_jwtVerify tokens reachable = jose_jwtVerify (sample_compactVerify tokens reachable)"

definition empty_payload :: jwt_payload where
  "empty_payload =
     \<lparr> payload_sub = None, payload_email = None, payload_name = None,
       payload_scopes = None, payload_scope = None, payload_permissions = None,
       payload_exp = None, payload_nbf = None, payload_iat = None, payload_iss = None,
       payload_aud = None \<rparr>"

text \<open>A payload issued for project \<^verbatim>\<open>P1\<close>, expiring at second 2000, without scopes or subject.\<close>

definition p1_payload :: jwt_payload where
  "p1_payload =
     empty_payload\<lparr> payload_iss := Some ''https://api.descope.com/P1'',
                    payload_aud := Some ''P1'', payload_exp := Some 2000,
                    payload_iat := Some 1000 \<rparr>"

text \<open>Tokens for a user \<^verbatim>\<open>user-1\<close>: with two email scopes, and with one scope in three encodings.\<close>

definition email_payload :: jwt_payload where
  "email_payload =
     p1_payload\<lparr> payload_sub := Some ''user-1'',
                 payload_scopes := Some [''email.read'', ''email.summarize''] \<rparr>"

definition twice_payload :: jwt_payload where
  "twice_payload =
     p1_payload\<lparr> payload_sub := Some ''user-1'',
                 payload_scopes := Some [''email.read'', ''email.read''] \<rparr>"

definition string_payload :: jwt_payload where
  "string_payload =
     p1_payload\<lparr> payload_sub := Some ''user-1'',
                 payload_scope := Some (JsString ''email.read'') \<rparr>"

definition permissions_payload :: jwt_payload where
  "permissions_payload =
     p1_payload\<lparr> payload_sub := Some ''user-1'',
                 payload_permissions := Some [''email.read''] \<rparr>"

text \<open>
  A payload with issuer and audience only, and one scope that is no
  \<^verbatim>\<open>resource.action\<close> pair; a payload whose \<^verbatim>\<open>scope\<close> is an array; a payload without issuer.
\<close>

definition bare_payload :: jwt_payload where
  "bare_payload =
     empty_payload\<lparr> payload_iss := Some ''https://api.descope.com/P1'',
                    payload_aud := Some ''P1'', payload_scopes := Some [''admin''] \<rparr>"

definition array_scope_payload :: jwt_payload where
  "array_scope_payload =
     p1_payload\<lparr> payload_sub := Some ''user-1'',
                 payload_scope := Some (JsArray [JsString ''email.read'']) \<rparr>"

definition no_issuer_payload :: jwt_payload where
  "no_issuer_payload =
     empty_payload\<lparr> payload_sub := Some ''user-1'', payload_aud := Some ''P1'',
                    payload_exp := Some 2000 \<rparr>"

text \<open>
  The tokens in circulation. \<^verbatim>\<open>t1-forged\<close> has the payload of \<^verbatim>\<open>t1\<close> under a signature
  that is not genuine.
\<close>

definition issued_tokens :: "(string \<times> bool \<times> jwt_payload) list" where
  "issued_tokens =
     [(''t1'', True, p1_payload), (''t1-forged'', False, p1_payload),
      (''t-email'', True, email_payload), (''t-twice'', True, twice_payload),
      (''t-string'', True, string_payload), (''t-permissions'', True, permissions_payload),
      (''t-bare'', True, bare_payload), (''t-array-scope'', True, array_scope_payload),
      (''t-no-issuer'', True, no_issuer_payload)]"

definition production_env :: env where
  "production_env = [''NODE_ENV'' \<mapsto> ''production'', ''DESCOPE_PROJECT_ID'' \<mapsto> ''P1'']"

definition production_unset_env :: env where
  "production_unset_env = [''NODE_ENV'' \<mapsto> ''production'']"

definition staging_unset_env :: env where
  "staging_unset_env = [''NODE_ENV'' \<mapsto> ''staging'']"

definition development_env :: env where
  "development_env = [''DESCOPE_PROJECT_ID'' \<mapsto> ''P1'']"

definition production_cfg :: config where
  "production_cfg = load_config production_env"

definition staging_unset_cfg :: config where
  "staging_unset_cfg = load_config staging_unset_env"

definition development_cfg :: config where
  "development_cfg = load_config development_env"

section \<open>Properties\<close>

subsection \<open>Auxiliary facts\<close>

text \<open>The four ways a call of \<^verbatim>\<open>validateToken\<close> can go.\<close>

lemma validateToken_bypass:
  "projectId svc = [] \<or> nodeEnv cfg = ''development'' \<Longrightarrow>
   validateToken J cfg now svc token =
     (Inr (getMockClaims now token), svc,
      [LogDebug ''Using mock token validation (development mode)''])"
  by (simp add: validateToken_def)

lemma validateToken_rejected:
  "projectId svc \<noteq> [] \<Longrightarrow> nodeEnv cfg \<noteq> ''development'' \<Longrightarrow>
   J token (fst (getJWKS svc))
     \<lparr> issuer = ''https://api.descope.com/'' @ projectId svc, audience = projectId svc \<rparr> now
     = Inl msg \<Longrightarrow>
   validateToken J cfg now svc token =
     (Inl (''Token validation failed: '' @ msg), snd (getJWKS svc),
      [LogError ''Token validation failed'' msg])"
  by (simp add: validateToken_def case_prod_beta)

lemma validateToken_accepted:
  "projectId svc \<noteq> [] \<Longrightarrow> nodeEnv cfg \<noteq> ''development'' \<Longrightarrow>
   J token (fst (getJWKS svc))
     \<lparr> issuer = ''https://api.descope.com/'' @ projectId svc, audience = projectId svc \<rparr> now
     = Inr p \<Longrightarrow>
   extract_scopes p = Inr ss \<Longrightarrow>
   validateToken J cfg now svc token = (Inr (claims_of_payload p ss), snd (getJWKS svc), [])"
  by (simp add: validateToken_def case_prod_beta)

lemma validateToken_scope_error:
  "projectId svc \<noteq> [] \<Longrightarrow> nodeEnv cfg \<noteq> ''development'' \<Longrightarrow>
   J token (fst (getJWKS svc))
     \<lparr> issuer = ''https://api.descope.com/'' @ projectId svc, audience = projectId svc \<rparr> now
     = Inr p \<Longrightarrow>
   extract_scopes p = Inl msg \<Longrightarrow>
   validateToken J cfg now svc token =
     (Inl (''Token validation failed: '' @ msg), snd (getJWKS svc),
      [LogError ''Token validation failed'' msg])"
  by (simp add: validateToken_def case_prod_beta)

lemma getJWKS_again: "getJWKS (snd (getJWKS svc)) = (fst (getJWKS svc), snd (getJWKS svc))"
  by (simp add: getJWKS_def Let_def split: option.splits)

lemma getJWKS_projectId: "projectId (snd (getJWKS svc)) = projectId svc"
  by (simp add: getJWKS_def Let_def split: option.splits)

text \<open>Splitting at spaces undoes joining with spaces, for pieces without a space.\<close>

lemma split_on_no_sep: "c \<notin> set x \<Longrightarrow> split_on c x = [x]"
  by (induction x) auto

lemma split_on_append_sep: "c \<notin> set x \<Longrightarrow> split_on c (x @ c # rest) = x # split_on c rest"
  by (induction x) auto

lemma split_on_join_sp:
  "xs \<noteq> [] \<Longrightarrow> \<forall>x \<in> set xs. CHR '' '' \<notin> set x \<Longrightarrow> split_on CHR '' '' (join_sp xs) = xs"
proof (induction xs rule: join_sp.induct)
  case 1
  then show ?case by simp
next
  case (2 x)
  then show ?case by (simp add: split_on_no_sep)
next
  case (3 x y ys)
  then show ?case by (simp add: split_on_append_sep)
qed

lemma join_sp_empty: "\<forall>x \<in> set xs. x \<noteq> [] \<Longrightarrow> join_sp xs = [] \<longleftrightarrow> xs = []"
  by (induction xs rule: join_sp.induct) auto

lemma extract_scopes_carries:
  assumes "carries p form xs" and "\<forall>x \<in> set xs. scope_value x"
  shows "extract_scopes p = Inr xs"
proof (cases form)
  case ScopeString
  show ?thesis
  proof (cases "xs = []")
    case True
    with ScopeString assms show ?thesis
      by (simp add: carries_def extract_scopes_def)
  next
    case False
    from assms(2) have ne: "\<forall>x \<in> set xs. x \<noteq> []" and nosp: "\<forall>x \<in> set xs. CHR '' '' \<notin> set x"
      by (simp_all add: scope_value_def)
    from False ne have "join_sp xs \<noteq> []" by (simp add: join_sp_empty)
    with ScopeString assms(1) False nosp show ?thesis
      by (simp add: carries_def extract_scopes_def split_on_join_sp)
  qed
next
  case ScopesArray
  with assms show ?thesis by (simp add: carries_def extract_scopes_def)
next
  case PermissionsArray
  with assms show ?thesis by (simp add: carries_def extract_scopes_def)
qed

text \<open>Unfolding the concrete instances.\<close>

lemmas sample_defs =
  production_cfg_def load_config_def production_env_def
  env_or_def new_DescopeService_def sample_jwtVerify_def sample_compactVerify_def
  jose_jwtVerify_def validate_claims_def p1_payload_def empty_payload_def
  email_payload_def twice_payload_def string_payload_def permissions_payload_def
  bare_payload_def array_scope_payload_def no_issuer_payload_def
  issued_tokens_def getJWKS_def PUBLIC_PATHS_def

subsection \<open>Missing credentials\<close>

text \<open>
  Claim C7. On a protected path (one not in \<^verbatim>\<open>PUBLIC_PATHS\<close>), a request whose authorization
  header is absent or does not start with \<^verbatim>\<open>Bearer \<close> is answered with 401
  \<^verbatim>\<open>MISSING_TOKEN\<close>: the answer is the same for every verifier, configuration and time, the
  service is left as it was and nothing is logged, so \<^verbatim>\<open>validateToken\<close> has not run. The
  outcome differs from a verification failure: whenever the header does carry the Bearer
  scheme, any answer of the middleware has code \<^verbatim>\<open>UNAUTHORIZED\<close>.
\<close>

theorem missing_credential_rejected_before_verifier:
  assumes "req_path req \<notin> set PUBLIC_PATHS"
    and "req_authorization req = None
         \<or> (\<exists>h. req_authorization req = Some h \<and> \<not> prefix ''Bearer '' h)"
  shows "authMiddleware J cfg now svc req =
           (Respond \<lparr> status = 401, code = ''MISSING_TOKEN'',
                      message = ''Authorization header with Bearer token required'' \<rparr>, svc, [])
         \<and> (\<forall>J' cfg' now' svc' req' h r.
               req_authorization req' = Some h \<and> prefix ''Bearer '' h
               \<and> fst (authMiddleware J' cfg' now' svc' req') = Respond r
               \<longrightarrow> code r = ''UNAUTHORIZED'')"
proof
  show "authMiddleware J cfg now svc req =
           (Respond \<lparr> status = 401, code = ''MISSING_TOKEN'',
                      message = ''Authorization header with Bearer token required'' \<rparr>, svc, [])"
    using assms by (auto simp: authMiddleware_def)
next
  show "\<forall>J' cfg' now' svc' req' h r.
               req_authorization req' = Some h \<and> prefix ''Bearer '' h
               \<and> fst (authMiddleware J' cfg' now' svc' req') = Respond r
               \<longrightarrow> code r = ''UNAUTHORIZED''"
    by (auto simp: authMiddleware_def Let_def split: if_splits prod.splits sum.splits)
qed

theorem missing_credential_rejected_witness:
  "authMiddleware (sample_jwtVerify [(''t1'', True, p1_payload)] True) production_cfg 1500
     (new_DescopeService production_cfg)
     \<lparr> req_path = ''/emails'', req_authorization = Some ''Basic dXNlcjpwdw=='', req_user = None \<rparr>
   = (Respond \<lparr> status = 401, code = ''MISSING_TOKEN'',
                message = ''Authorization header with Bearer token required'' \<rparr>,
      new_DescopeService production_cfg, [])"
proof -
  let ?req = "\<lparr> req_path = ''/emails'', req_authorization = Some ''Basic dXNlcjpwdw=='',
                 req_user = None \<rparr>"
  have h1: "req_path ?req \<notin> set PUBLIC_PATHS"
    by (simp add: PUBLIC_PATHS_def)
  have h2: "req_authorization ?req = None
            \<or> (\<exists>h. req_authorization ?req = Some h \<and> \<not> prefix ''Bearer '' h)"
    by simp
  from missing_credential_rejected_before_verifier [OF h1 h2]
  show ?thesis by blast
qed

subsection \<open>Tokens without scopes\<close>

text \<open>
  Claim C10. Outside the mock branch, a token that the library verifier accepts and whose
  payload has none of \<^verbatim>\<open>scopes\<close>, \<^verbatim>\<open>scope\<close>, \<^verbatim>\<open>permissions\<close> makes \<^verbatim>\<open>validateToken\<close>
  resolve to claims with an empty scope list, so that no required scope is among them.
\<close>

theorem scopeless_token_authenticates_with_no_scopes:
  assumes "projectId svc \<noteq> []" and "nodeEnv cfg \<noteq> ''development''"
    and "J token (fst (getJWKS svc))
           \<lparr> issuer = ''https://api.descope.com/'' @ projectId svc, audience = projectId svc \<rparr> now
         = Inr p"
    and "payload_scopes p = None" and "payload_scope p = None" and "payload_permissions p = None"
  shows "\<exists>c svc' evs. validateToken J cfg now svc token = (Inr c, svc', evs)
           \<and> claims_scopes c = [] \<and> (\<forall>required. required \<notin> set (claims_scopes c))"
proof -
  from assms(4,5,6) have "extract_scopes p = Inr []"
    by (simp add: extract_scopes_def)
  from validateToken_accepted [where J = J and token = token, OF assms(1) assms(2) assms(3) this]
  show ?thesis by (simp add: claims_of_payload_def)
qed

theorem scopeless_token_witness:
  "sample_jwtVerify [(''t1'', True, p1_payload)] True ''t1''
     (fst (getJWKS (new_DescopeService production_cfg)))
     \<lparr> issuer = ''https://api.descope.com/'' @ projectId (new_DescopeService production_cfg),
       audience = projectId (new_DescopeService production_cfg) \<rparr> 1500 = Inr p1_payload
   \<and> (\<exists>c svc' evs.
         validateToken (sample_jwtVerify [(''t1'', True, p1_payload)] True) production_cfg 1500
           (new_DescopeService production_cfg) ''t1'' = (Inr c, svc', evs)
         \<and> claims_scopes c = [])"
proof -
  let ?svc = "new_DescopeService production_cfg"
  have h1: "projectId ?svc \<noteq> []" by (simp add: sample_defs)
  have h2: "nodeEnv production_cfg \<noteq> ''development''" by (simp add: sample_defs)
  have h3: "sample_jwtVerify [(''t1'', True, p1_payload)] True ''t1'' (fst (getJWKS ?svc))
              \<lparr> issuer = ''https://api.descope.com/'' @ projectId ?svc,
                audience = projectId ?svc \<rparr> 1500 = Inr p1_payload"
    by (simp add: sample_defs)
  have h4: "payload_scopes p1_payload = None" by (simp add: sample_defs)
  have h5: "payload_scope p1_payload = None" by (simp add: sample_defs)
  have h6: "payload_permissions p1_payload = None" by (simp add: sample_defs)
  from scopeless_token_authenticates_with_no_scopes
         [where J = "sample_jwtVerify [(''t1'', True, p1_payload)] True" and token = "''t1''",
          OF h1 h2 h3 h4 h5 h6] h3
  show ?thesis by blast
qed

subsection \<open>Start-up check and the mock branch\<close>

text \<open>
  Claim C1, as stated, fails: the start-up check only looks for the posture
  \<^verbatim>\<open>production\<close>. With \<^verbatim>\<open>NODE_ENV=staging\<close> and no \<^verbatim>\<open>DESCOPE_PROJECT_ID\<close> the process starts,
  and \<^verbatim>\<open>validateToken\<close> resolves to the mock claims for a string that is not even a token.
\<close>

theorem unset_issuer_outside_production_serves_mock_claims:
  "startup staging_unset_env = Inr staging_unset_cfg
   \<and> nodeEnv staging_unset_cfg = ''staging''
   \<and> descopeProjectId staging_unset_cfg = []
   \<and> validateToken (sample_jwtVerify [] True) staging_unset_cfg 1500
        (new_DescopeService staging_unset_cfg) ''not-a-token''
      = (Inr (getMockClaims 1500 ''not-a-token''), new_DescopeService staging_unset_cfg,
         [LogDebug ''Using mock token validation (development mode)''])"
  by (simp add: staging_unset_cfg_def staging_unset_env_def load_config_def env_or_def
                new_DescopeService_def startup_def validateToken_def)

text \<open>
  Claim C1, amended. In the posture \<^verbatim>\<open>production\<close> an unset project id stops the process at
  start-up with exit code 1; and when the project id is set, the process starts and
  \<^verbatim>\<open>validateToken\<close> never takes the mock branch: the mock-validation line is never
  logged, and every token the library verifier rejects is rejected.
\<close>

theorem production_unset_issuer_is_fatal_and_never_mocked:
  assumes "nodeEnv (load_config e) = ''production''"
  shows "if descopeProjectId (load_config e) = []
         then startup e = Inl (''ERROR: DESCOPE_PROJECT_ID is required in production'', 1)
         else startup e = Inr (load_config e)
              \<and> (\<forall>J now svc token.
                    projectId svc = descopeProjectId (load_config e) \<longrightarrow>
                    LogDebug ''Using mock token validation (development mode)''
                      \<notin> set (snd (snd (validateToken J (load_config e) now svc token)))
                    \<and> (\<forall>msg.
                          J token (fst (getJWKS svc))
                            \<lparr> issuer = ''https://api.descope.com/'' @ projectId svc,
                              audience = projectId svc \<rparr> now = Inl msg
                          \<longrightarrow> fst (validateToken J (load_config e) now svc token)
                              = Inl (''Token validation failed: '' @ msg)))"
proof (cases "descopeProjectId (load_config e) = []")
  case True
  with assms show ?thesis by (simp add: startup_def)
next
  case False
  have st: "startup e = Inr (load_config e)"
    using False by (simp add: startup_def)
  have nd: "nodeEnv (load_config e) \<noteq> ''development''"
    using assms by simp
  have "LogDebug ''Using mock token validation (development mode)''
          \<notin> set (snd (snd (validateToken J (load_config e) now svc token)))"
    if "projectId svc = descopeProjectId (load_config e)" for J now svc token
  proof (cases "J token (fst (getJWKS svc))
                  \<lparr> issuer = ''https://api.descope.com/'' @ projectId svc,
                    audience = projectId svc \<rparr> now")
    case (Inl msg)
    from that False have "projectId svc \<noteq> []" by simp
    from validateToken_rejected [where J = J and token = token, OF this nd Inl] show ?thesis by simp
  next
    case (Inr p)
    from that False have ne: "projectId svc \<noteq> []" by simp
    show ?thesis
    proof (cases "extract_scopes p")
      case (Inl m)
      from validateToken_scope_error [where J = J and token = token, OF ne nd Inr Inl]
      show ?thesis by simp
    next
      case (Inr ss)
      from validateToken_accepted [where J = J and token = token, OF ne nd \<open>J token _ _ now = Inr p\<close> Inr]
      show ?thesis by simp
    qed
  qed
  moreover have "fst (validateToken J (load_config e) now svc token)
                   = Inl (''Token validation failed: '' @ msg)"
    if "projectId svc = descopeProjectId (load_config e)"
      and "J token (fst (getJWKS svc))
             \<lparr> issuer = ''https://api.descope.com/'' @ projectId svc,
               audience = projectId svc \<rparr> now = Inl msg" for J now svc token msg
  proof -
    from that(1) False have "projectId svc \<noteq> []" by simp
    from validateToken_rejected [where J = J and token = token, OF this nd that(2)] show ?thesis by simp
  qed
  ultimately show ?thesis using False st by simp
qed

theorem production_unset_issuer_witness:
  "nodeEnv (load_config production_unset_env) = ''production''
   \<and> startup production_unset_env
       = Inl (''ERROR: DESCOPE_PROJECT_ID is required in production'', 1)
   \<and> nodeEnv (load_config production_env) = ''production''
   \<and> startup production_env = Inr (load_config production_env)
   \<and> fst (validateToken (sample_jwtVerify [] True) (load_config production_env) 1500
            (new_DescopeService (load_config production_env)) ''not-a-token'')
       = Inl ''Token validation failed: Invalid Compact JWS''"
proof -
  have h1: "nodeEnv (load_config production_unset_env) = ''production''"
    by (simp add: production_unset_env_def load_config_def env_or_def)
  have h2: "nodeEnv (load_config production_env) = ''production''"
    by (simp add: sample_defs)
  have u: "descopeProjectId (load_config production_unset_env) = []"
    by (simp add: production_unset_env_def load_config_def env_or_def)
  have s: "descopeProjectId (load_config production_env) \<noteq> []"
    by (simp add: sample_defs)
  have p: "projectId (new_DescopeService (load_config production_env))
             = descopeProjectId (load_config production_env)"
    by (simp add: new_DescopeService_def)
  have r: "sample_jwtVerify [] True ''not-a-token''
             (fst (getJWKS (new_DescopeService (load_config production_env))))
             \<lparr> issuer = ''https://api.descope.com/''
                         @ projectId (new_DescopeService (load_config production_env)),
               audience = projectId (new_DescopeService (load_config production_env)) \<rparr> 1500
           = Inl ''Invalid Compact JWS''"
    by (simp add: sample_jwtVerify_def sample_compactVerify_def jose_jwtVerify_def)
  from production_unset_issuer_is_fatal_and_never_mocked [OF h1] u
  have a: "startup production_unset_env
             = Inl (''ERROR: DESCOPE_PROJECT_ID is required in production'', 1)"
    by simp
  from production_unset_issuer_is_fatal_and_never_mocked [OF h2] s
  have b: "startup production_env = Inr (load_config production_env)
           \<and> (\<forall>J now svc token.
                 projectId svc = descopeProjectId (load_config production_env) \<longrightarrow>
                 LogDebug ''Using mock token validation (development mode)''
                   \<notin> set (snd (snd (validateToken J (load_config production_env) now svc token)))
                 \<and> (\<forall>msg.
                       J token (fst (getJWKS svc))
                         \<lparr> issuer = ''https://api.descope.com/'' @ projectId svc,
                           audience = projectId svc \<rparr> now = Inl msg
                       \<longrightarrow> fst (validateToken J (load_config production_env) now svc token)
                           = Inl (''Token validation failed: '' @ msg)))"
    by simp
  from b p r have c: "fst (validateToken (sample_jwtVerify [] True) (load_config production_env)
            1500 (new_DescopeService (load_config production_env)) ''not-a-token'')
       = Inl (''Token validation failed: '' @ ''Invalid Compact JWS'')"
    by blast
  from a b c h1 h2 show ?thesis by simp
qed

subsection \<open>Key-resolution failures\<close>

text \<open>
  Claim C2, as stated, fails in its status class: with the key set unreachable the library
  verifier rejects, \<^verbatim>\<open>validateToken\<close> rethrows, and the \<^verbatim>\<open>catch\<close> block of the middleware
  answers 401 \<^verbatim>\<open>UNAUTHORIZED\<close>, as for every other verification failure.
\<close>

theorem key_outage_answered_401:
  "authMiddleware (sample_jwtVerify issued_tokens False) production_cfg 1500
     (new_DescopeService production_cfg)
     \<lparr> req_path = ''/emails'', req_authorization = Some ''Bearer t-email'', req_user = None \<rparr>
   = (Respond \<lparr> status = 401, code = ''UNAUTHORIZED'',
                message = ''Token validation failed: request timed out'' \<rparr>,
      \<lparr> jwks = Some ''https://api.descope.com/P1/.well-known/jwks.json'', projectId = ''P1'' \<rparr>,
      [LogError ''Token validation failed'' ''request timed out'',
       LogWarn ''Authentication failed'' ''Token validation failed: request timed out''])"
  by (simp add: sample_defs authMiddleware_def validateToken_def Let_def)

text \<open>
  Claim C2, amended. Outside the mock branch, a protected request with a Bearer token that
  the library verifier rejects (the key set being unreachable is one such rejection) is
  answered with status 401 and code \<^verbatim>\<open>UNAUTHORIZED\<close>, the message being the library's message
  after \<^verbatim>\<open>Token validation failed: \<close>; the request is never handed on.
\<close>

theorem verifier_rejection_is_denied_with_401:
  assumes "req_path req \<notin> set PUBLIC_PATHS"
    and "req_authorization req = Some h" and "prefix ''Bearer '' h"
    and "projectId svc \<noteq> []" and "nodeEnv cfg \<noteq> ''development''"
    and "J (drop 7 h) (fst (getJWKS svc))
           \<lparr> issuer = ''https://api.descope.com/'' @ projectId svc, audience = projectId svc \<rparr> now
         = Inl msg"
  shows "fst (authMiddleware J cfg now svc req)
           = Respond \<lparr> status = 401, code = ''UNAUTHORIZED'',
                       message = ''Token validation failed: '' @ msg \<rparr>
         \<and> (\<forall>req'. fst (authMiddleware J cfg now svc req) \<noteq> Next req')"
proof -
  from validateToken_rejected [where J = J and token = "drop 7 h", OF assms(4) assms(5) assms(6)]
  have "validateToken J cfg now svc (drop 7 h) =
          (Inl (''Token validation failed: '' @ msg), snd (getJWKS svc),
           [LogError ''Token validation failed'' msg])" .
  with assms(1,2,3) show ?thesis
    by (simp add: authMiddleware_def)
qed

theorem verifier_rejection_witness:
  "sample_jwtVerify issued_tokens False (drop 7 ''Bearer t-email'')
     (fst (getJWKS (new_DescopeService production_cfg)))
     \<lparr> issuer = ''https://api.descope.com/'' @ projectId (new_DescopeService production_cfg),
       audience = projectId (new_DescopeService production_cfg) \<rparr> 1500
   = Inl ''request timed out''
   \<and> fst (authMiddleware (sample_jwtVerify issued_tokens False) production_cfg 1500
           (new_DescopeService production_cfg)
           \<lparr> req_path = ''/calendar/events'', req_authorization = Some ''Bearer t-email'',
             req_user = None \<rparr>)
     = Respond \<lparr> status = 401, code = ''UNAUTHORIZED'',
                 message = ''Token validation failed: request timed out'' \<rparr>"
proof -
  let ?svc = "new_DescopeService production_cfg"
  let ?req = "\<lparr> req_path = ''/calendar/events'', req_authorization = Some ''Bearer t-email'',
                 req_user = None \<rparr>"
  have h1: "req_path ?req \<notin> set PUBLIC_PATHS" by (simp add: PUBLIC_PATHS_def)
  have h2: "req_authorization ?req = Some ''Bearer t-email''" by simp
  have h3: "prefix ''Bearer '' ''Bearer t-email''" by simp
  have h4: "projectId ?svc \<noteq> []" by (simp add: sample_defs)
  have h5: "nodeEnv production_cfg \<noteq> ''development''" by (simp add: sample_defs)
  have h6: "sample_jwtVerify issued_tokens False (drop 7 ''Bearer t-email'') (fst (getJWKS ?svc))
              \<lparr> issuer = ''https://api.descope.com/'' @ projectId ?svc,
                audience = projectId ?svc \<rparr> 1500 = Inl ''request timed out''"
    by (simp add: sample_defs)
  from verifier_rejection_is_denied_with_401
         [where J = "sample_jwtVerify issued_tokens False" and h = "''Bearer t-email''",
          OF h1 h2 h3 h4 h5 h6] h6
  show ?thesis by simp
qed

subsection \<open>Scope encodings\<close>

text \<open>
  Claim C5, as stated, fails: the scope list is taken over as it comes, with no
  de-duplication. The tokens \<^verbatim>\<open>t-twice\<close> (array \<^verbatim>\<open>scopes\<close> with \<^verbatim>\<open>email.read\<close> twice) and
  \<^verbatim>\<open>t-string\<close> (string \<^verbatim>\<open>scope\<close> with \<^verbatim>\<open>email.read\<close>) carry the same set of scope values and
  give different scope lists, the first with a duplicate.
\<close>

theorem same_scope_set_gives_different_scope_lists:
  "carries twice_payload ScopesArray [''email.read'', ''email.read'']
   \<and> carries string_payload ScopeString [''email.read'']
   \<and> set [''email.read'', ''email.read''] = set [''email.read'']
   \<and> fst (validateToken (sample_jwtVerify issued_tokens True) production_cfg 1500
           (new_DescopeService production_cfg) ''t-twice'')
     = Inr (claims_of_payload twice_payload [''email.read'', ''email.read''])
   \<and> claims_scopes (claims_of_payload twice_payload [''email.read'', ''email.read''])
     = [''email.read'', ''email.read'']
   \<and> \<not> distinct (claims_scopes (claims_of_payload twice_payload [''email.read'', ''email.read'']))
   \<and> fst (validateToken (sample_jwtVerify issued_tokens True) production_cfg 1500
           (new_DescopeService production_cfg) ''t-string'')
     = Inr (claims_of_payload string_payload [''email.read''])
   \<and> claims_scopes (claims_of_payload string_payload [''email.read'']) = [''email.read'']"
  by (simp add: sample_defs carries_def validateToken_def claims_of_payload_def
                extract_scopes_def Let_def)

text \<open>
  Claim C5, amended. When a payload carries a list of scope values (non-empty strings
  without a space) in exactly one of the three forms, the string form being the values
  joined by single spaces, \<^verbatim>\<open>validateToken\<close> returns that list as it is, in order and with
  its duplicates. Hence two payloads that carry the same set of scope values, each in any
  of the three forms, yield scope lists with the same set of elements; the lists
  themselves may differ in order and multiplicity.
\<close>

theorem scope_forms_agree_as_sets:
  assumes "projectId svc \<noteq> []" and "nodeEnv cfg \<noteq> ''development''"
    and "J t1 (fst (getJWKS svc))
           \<lparr> issuer = ''https://api.descope.com/'' @ projectId svc, audience = projectId svc \<rparr> now
         = Inr p"
    and "J t2 (fst (getJWKS svc))
           \<lparr> issuer = ''https://api.descope.com/'' @ projectId svc, audience = projectId svc \<rparr> now
         = Inr q"
    and "carries p f xs" and "carries q g ys"
    and "\<forall>x \<in> set xs. scope_value x" and "\<forall>y \<in> set ys. scope_value y"
    and "set xs = set ys"
  shows "\<exists>c d. fst (validateToken J cfg now svc t1) = Inr c
               \<and> fst (validateToken J cfg now svc t2) = Inr d
               \<and> claims_scopes c = xs \<and> claims_scopes d = ys
               \<and> set (claims_scopes c) = set (claims_scopes d)"
proof -
  from validateToken_accepted
         [where J = J and token = t1, OF assms(1) assms(2) assms(3)
            extract_scopes_carries [OF assms(5) assms(7)]]
  have c: "fst (validateToken J cfg now svc t1) = Inr (claims_of_payload p xs)"
    by simp
  from validateToken_accepted
         [where J = J and token = t2, OF assms(1) assms(2) assms(4)
            extract_scopes_carries [OF assms(6) assms(8)]]
  have d: "fst (validateToken J cfg now svc t2) = Inr (claims_of_payload q ys)"
    by simp
  have xs: "claims_scopes (claims_of_payload p xs) = xs"
    by (simp add: claims_of_payload_def)
  have ys: "claims_scopes (claims_of_payload q ys) = ys"
    by (simp add: claims_of_payload_def)
  from c d xs ys assms(9) show ?thesis by simp
qed

theorem scope_forms_witness:
  "carries string_payload ScopeString [''email.read'']
   \<and> carries permissions_payload PermissionsArray [''email.read'']
   \<and> (\<exists>c d. fst (validateToken (sample_jwtVerify issued_tokens True) production_cfg 1500
                   (new_DescopeService production_cfg) ''t-string'') = Inr c
            \<and> fst (validateToken (sample_jwtVerify issued_tokens True) production_cfg 1500
                   (new_DescopeService production_cfg) ''t-permissions'') = Inr d
            \<and> claims_scopes c = [''email.read''] \<and> claims_scopes d = [''email.read''])"
proof -
  let ?svc = "new_DescopeService production_cfg"
  let ?J = "sample_jwtVerify issued_tokens True"
  have h1: "projectId ?svc \<noteq> []" by (simp add: sample_defs)
  have h2: "nodeEnv production_cfg \<noteq> ''development''" by (simp add: sample_defs)
  have h3: "?J ''t-string'' (fst (getJWKS ?svc))
              \<lparr> issuer = ''https://api.descope.com/'' @ projectId ?svc,
                audience = projectId ?svc \<rparr> 1500 = Inr string_payload"
    by (simp add: sample_defs)
  have h4: "?J ''t-permissions'' (fst (getJWKS ?svc))
              \<lparr> issuer = ''https://api.descope.com/'' @ projectId ?svc,
                audience = projectId ?svc \<rparr> 1500 = Inr permissions_payload"
    by (simp add: sample_defs)
  have h5: "carries string_payload ScopeString [''email.read'']"
    by (simp add: carries_def sample_defs)
  have h6: "carries permissions_payload PermissionsArray [''email.read'']"
    by (simp add: carries_def sample_defs)
  have h7: "\<forall>x \<in> set [''email.read'']. scope_value x"
    by (simp add: scope_value_def)
  have h9: "set [''email.read''] = set [''email.read'']" by simp
  from scope_forms_agree_as_sets
         [where J = ?J and ?t1.0 = "''t-string''" and ?t2.0 = "''t-permissions''",
          OF h1 h2 h3 h4 h5 h6 h7 h7 h9] h5 h6
  show ?thesis by blast
qed

subsection \<open>Repeated verification\<close>

text \<open>
  Claim C8. If a call of \<^verbatim>\<open>validateToken\<close> resolves to claims, and at a later time the
  library verifier gives the same verdict on the token (the token is still valid under the
  same configuration), then a second call on the service as the first call left it
  resolves to claims as well, with the same subject and the same scope list, and leaves
  the service unchanged. The only state the calls touch is the cached key-set resolver;
  the token is an immutable string.
\<close>

theorem validateToken_idempotent:
  assumes "validateToken J cfg now1 svc token = (Inr c1, svc1, ev1)"
    and "J token (fst (getJWKS svc))
           \<lparr> issuer = ''https://api.descope.com/'' @ projectId svc, audience = projectId svc \<rparr> now2
         = J token (fst (getJWKS svc))
             \<lparr> issuer = ''https://api.descope.com/'' @ projectId svc, audience = projectId svc \<rparr> now1"
  shows "\<exists>c2 ev2. validateToken J cfg now2 svc1 token = (Inr c2, svc1, ev2)
           \<and> claims_sub c2 = claims_sub c1 \<and> claims_scopes c2 = claims_scopes c1"
proof (cases "projectId svc = [] \<or> nodeEnv cfg = ''development''")
  case True
  from validateToken_bypass [OF True, of J now1 token] assms(1)
  have 1: "c1 = getMockClaims now1 token" and 2: "svc1 = svc"
    by simp_all
  from validateToken_bypass [OF True, of J now2 token] 1 2
  show ?thesis by (simp add: getMockClaims_def)
next
  case False
  then have ne: "projectId svc \<noteq> []" and nd: "nodeEnv cfg \<noteq> ''development''"
    by simp_all
  let ?opts = "\<lparr> issuer = ''https://api.descope.com/'' @ projectId svc,
                  audience = projectId svc \<rparr>"
  show ?thesis
  proof (cases "J token (fst (getJWKS svc)) ?opts now1")
    case (Inl msg)
    from validateToken_rejected [where J = J and token = token, OF ne nd Inl] assms(1)
    show ?thesis by simp
  next
    case acc: (Inr p)
    show ?thesis
    proof (cases "extract_scopes p")
      case (Inl m)
      from validateToken_scope_error [where J = J and token = token, OF ne nd acc Inl] assms(1)
      show ?thesis by simp
    next
      case (Inr ss)
      from validateToken_accepted [where J = J and token = token, OF ne nd acc Inr] assms(1)
      have c1: "c1 = claims_of_payload p ss" and s1: "svc1 = snd (getJWKS svc)"
        by simp_all
      have ne1: "projectId svc1 \<noteq> []"
        using ne s1 by (simp add: getJWKS_projectId)
      have "J token (fst (getJWKS svc1))
              \<lparr> issuer = ''https://api.descope.com/'' @ projectId svc1,
                audience = projectId svc1 \<rparr> now2 = Inr p"
        using acc assms(2) s1 by (simp add: getJWKS_again getJWKS_projectId)
      from validateToken_accepted [where J = J and token = token, OF ne1 nd this Inr]
      have "validateToken J cfg now2 svc1 token = (Inr (claims_of_payload p ss), svc1, [])"
        using s1 by (simp add: getJWKS_again)
      with c1 show ?thesis by simp
    qed
  qed
qed

theorem validateToken_idempotent_witness:
  "validateToken (sample_jwtVerify issued_tokens True) production_cfg 1500
     (new_DescopeService production_cfg) ''t-email''
   = (Inr (claims_of_payload email_payload [''email.read'', ''email.summarize'']),
      \<lparr> jwks = Some ''https://api.descope.com/P1/.well-known/jwks.json'', projectId = ''P1'' \<rparr>, [])
   \<and> (\<exists>c2 ev2.
         validateToken (sample_jwtVerify issued_tokens True) production_cfg 1900
           \<lparr> jwks = Some ''https://api.descope.com/P1/.well-known/jwks.json'', projectId = ''P1'' \<rparr>
           ''t-email''
         = (Inr c2,
            \<lparr> jwks = Some ''https://api.descope.com/P1/.well-known/jwks.json'',
              projectId = ''P1'' \<rparr>, ev2)
         \<and> claims_sub c2 = ''user-1''
         \<and> claims_scopes c2 = [''email.read'', ''email.summarize''])"
proof -
  let ?svc = "new_DescopeService production_cfg"
  let ?svc1 = "\<lparr> jwks = Some ''https://api.descope.com/P1/.well-known/jwks.json'',
                  projectId = ''P1'' \<rparr>"
  let ?J = "sample_jwtVerify issued_tokens True"
  have h1: "validateToken ?J production_cfg 1500 ?svc ''t-email''
              = (Inr (claims_of_payload email_payload [''email.read'', ''email.summarize'']), ?svc1, [])"
    by (simp add: sample_defs validateToken_def extract_scopes_def Let_def)
  have h2: "?J ''t-email'' (fst (getJWKS ?svc))
              \<lparr> issuer = ''https://api.descope.com/'' @ projectId ?svc,
                audience = projectId ?svc \<rparr> 1900
            = ?J ''t-email'' (fst (getJWKS ?svc))
                \<lparr> issuer = ''https://api.descope.com/'' @ projectId ?svc,
                  audience = projectId ?svc \<rparr> 1500"
    by (simp add: sample_defs)
  have s: "claims_sub (claims_of_payload email_payload [''email.read'', ''email.summarize'']) = ''user-1''"
    by (simp add: claims_of_payload_def str_or_def sample_defs)
  have t: "claims_scopes (claims_of_payload email_payload [''email.read'', ''email.summarize'']) = [''email.read'', ''email.summarize'']"
    by (simp add: claims_of_payload_def extract_scopes_def sample_defs)
  from validateToken_idempotent [where J = ?J and token = "''t-email''", OF h1 h2] h1 s t
  show ?thesis by simp
qed

subsection \<open>Scope enforcement\<close>

text \<open>
  Claim C3, as stated, fails in its last part: the gateway holds no scope check. A request
  to \<^verbatim>\<open>/calendar/events\<close> with the token \<^verbatim>\<open>t-email\<close>, whose scopes are \<^verbatim>\<open>email.read\<close> and
  \<^verbatim>\<open>email.summarize\<close>, passes the middleware and is proxied to Agent B with the scope list
  attached, although the scope rule denies \<^verbatim>\<open>calendar.write\<close> for that list.
\<close>

theorem calendar_request_with_email_scopes_reaches_agent:
  "fst (proxy_router (sample_jwtVerify issued_tokens True) production_cfg 1500
          (new_DescopeService production_cfg)
          \<lparr> req_path = ''/calendar/events'', req_authorization = Some ''Bearer t-email'',
            req_user = None \<rparr>)
   = Proxied AgentB ''http://localhost:8002''
       \<lparr> req_path = ''/calendar/events'', req_authorization = Some ''Bearer t-email'',
         req_user = Some \<lparr> user_id = ''user-1'', user_email = None,
                           user_scopes = [''email.read'', ''email.summarize''] \<rparr> \<rparr>
   \<and> authorize default_hierarchy [''email.read'', ''email.summarize''] ''calendar.write''
     = Deny (missing_scope ''calendar.write'')"
  by (simp add: sample_defs proxy_router_def authMiddleware_def validateToken_def
                claims_of_payload_def extract_scopes_def str_or_def mounted_at_def lower_char_def
                authorize_def default_hierarchy_def Let_def)

text \<open>
  Claim C3, amended. The scope rule allows a required scope if and only if it is in the
  held scope list or some held scope implies it by the hierarchy table, and denies with
  \<^verbatim>\<open>missing_scope\<close> otherwise; with the default (empty) table that is exact membership, so
  the scopes \<^verbatim>\<open>email.read\<close> and \<^verbatim>\<open>email.summarize\<close> are allowed \<^verbatim>\<open>email.read\<close> and denied
  \<^verbatim>\<open>calendar.write\<close>. The gateway does not apply the rule: once \<^verbatim>\<open>validateToken\<close> resolves
  to claims, the middleware hands the request on with the scope list of the claims
  attached, whatever the path, and the rule is left to the agent that receives it.
\<close>

theorem scope_rule_and_gateway_hand_over:
  "(authorize table held required = Allow
      \<longleftrightarrow> required \<in> set held \<or> (\<exists>s \<in> set held. (s, required) \<in> set table))
   \<and> (authorize table held required = Allow
        \<or> authorize table held required = Deny (missing_scope required))
   \<and> (authorize default_hierarchy held required = Allow \<longleftrightarrow> required \<in> set held)
   \<and> authorize default_hierarchy [''email.read'', ''email.summarize''] ''email.read'' = Allow
   \<and> authorize default_hierarchy [''email.read'', ''email.summarize''] ''calendar.write''
       = Deny (missing_scope ''calendar.write'')
   \<and> (req_path req \<notin> set PUBLIC_PATHS \<and> req_authorization req = Some h
        \<and> prefix ''Bearer '' h
        \<and> validateToken J cfg now svc (drop 7 h) = (Inr c, svc', evs)
      \<longrightarrow> fst (authMiddleware J cfg now svc req)
          = Next (req\<lparr>req_user := Some \<lparr> user_id = claims_sub c, user_email = claims_email c,
                                          user_scopes = claims_scopes c \<rparr>\<rparr>))"
  by (simp add: authorize_def default_hierarchy_def authMiddleware_def)

theorem scope_rule_and_gateway_witness:
  "validateToken (sample_jwtVerify issued_tokens True) production_cfg 1500
     (new_DescopeService production_cfg) (drop 7 ''Bearer t-email'')
   = (Inr (claims_of_payload email_payload [''email.read'', ''email.summarize'']),
      \<lparr> jwks = Some ''https://api.descope.com/P1/.well-known/jwks.json'', projectId = ''P1'' \<rparr>, [])
   \<and> claims_scopes (claims_of_payload email_payload [''email.read'', ''email.summarize'']) = [''email.read'', ''email.summarize'']
   \<and> fst (authMiddleware (sample_jwtVerify issued_tokens True) production_cfg 1500
           (new_DescopeService production_cfg)
           \<lparr> req_path = ''/calendar/events'', req_authorization = Some ''Bearer t-email'',
             req_user = None \<rparr>)
     = Next \<lparr> req_path = ''/calendar/events'', req_authorization = Some ''Bearer t-email'',
              req_user = Some \<lparr> user_id = claims_sub (claims_of_payload email_payload [''email.read'', ''email.summarize'']),
                                user_email = claims_email (claims_of_payload email_payload [''email.read'', ''email.summarize'']),
                                user_scopes = claims_scopes (claims_of_payload email_payload [''email.read'', ''email.summarize'']) \<rparr> \<rparr>
   \<and> authorize default_hierarchy (claims_scopes (claims_of_payload email_payload [''email.read'', ''email.summarize'']))
       ''calendar.write'' = Deny (missing_scope ''calendar.write'')
   \<and> authorize [(''calendar.write'', ''calendar.read'')] [''calendar.write''] ''calendar.read''
       = Allow"
proof -
  let ?svc = "new_DescopeService production_cfg"
  let ?svc1 = "\<lparr> jwks = Some ''https://api.descope.com/P1/.well-known/jwks.json'',
                  projectId = ''P1'' \<rparr>"
  let ?J = "sample_jwtVerify issued_tokens True"
  let ?req = "\<lparr> req_path = ''/calendar/events'', req_authorization = Some ''Bearer t-email'',
                 req_user = None \<rparr>"
  have h1: "req_path ?req \<notin> set PUBLIC_PATHS" by (simp add: PUBLIC_PATHS_def)
  have h2: "req_authorization ?req = Some ''Bearer t-email''" by simp
  have h3: "prefix ''Bearer '' ''Bearer t-email''" by simp
  have h4: "validateToken ?J production_cfg 1500 ?svc (drop 7 ''Bearer t-email'')
              = (Inr (claims_of_payload email_payload [''email.read'', ''email.summarize'']), ?svc1, [])"
    by (simp add: sample_defs validateToken_def extract_scopes_def Let_def)
  have t: "claims_scopes (claims_of_payload email_payload [''email.read'', ''email.summarize'']) = [''email.read'', ''email.summarize'']"
    by (simp add: claims_of_payload_def extract_scopes_def sample_defs)
  note a = scope_rule_and_gateway_hand_over
             [where J = ?J and cfg = production_cfg and now = 1500 and svc = ?svc
                and req = ?req and h = "''Bearer t-email''"
                and c = "claims_of_payload email_payload [''email.read'', ''email.summarize'']" and svc' = ?svc1 and evs = "[]"
                and table = "[(''calendar.write'', ''calendar.read'')]"
                and held = "[''calendar.write'']" and required = "''calendar.read''"]
  from a h1 h2 h3 h4
  have n: "fst (authMiddleware ?J production_cfg 1500 ?svc ?req)
             = Next (?req\<lparr>req_user :=
                              Some \<lparr> user_id = claims_sub (claims_of_payload email_payload [''email.read'', ''email.summarize'']),
                                     user_email = claims_email (claims_of_payload email_payload [''email.read'', ''email.summarize'']),
                                     user_scopes = claims_scopes (claims_of_payload email_payload [''email.read'', ''email.summarize'']) \<rparr>\<rparr>)"
    by blast
  from a have al: "authorize [(''calendar.write'', ''calendar.read'')] [''calendar.write'']
                     ''calendar.read'' = Allow"
    by simp
  from a t have d: "authorize default_hierarchy (claims_scopes (claims_of_payload email_payload [''email.read'', ''email.summarize'']))
                      ''calendar.write'' = Deny (missing_scope ''calendar.write'')"
    by simp
  from n al d h4 t show ?thesis by simp
qed

subsection \<open>Expired tokens\<close>

text \<open>
  Claim C4, as stated, fails twice over. In the posture \<^verbatim>\<open>development\<close> (or with the project
  id unset) \<^verbatim>\<open>validateToken\<close> does not look at the token: \<^verbatim>\<open>t1\<close>, genuinely signed and
  expired at second 2000, gets the mock claims at second 2500, with an expiry an hour
  after the call. And outside the mock branch the denial of an expired token does not
  always carry the expiry as its reason: \<^verbatim>\<open>t1-forged\<close>, the same payload under a signature
  that is not genuine, is denied with the message of the signature check.
\<close>

theorem expired_token_accepted_in_development:
  "map_of issued_tokens ''t1'' = Some (True, p1_payload)
   \<and> map_of issued_tokens ''t1-forged'' = Some (False, p1_payload)
   \<and> payload_exp p1_payload = Some 2000
   \<and> validateToken (sample_jwtVerify issued_tokens True) development_cfg 2500
       (new_DescopeService development_cfg) ''t1''
     = (Inr (getMockClaims 2500 ''t1''), new_DescopeService development_cfg,
        [LogDebug ''Using mock token validation (development mode)''])
   \<and> claims_exp (getMockClaims 2500 ''t1'') = 6100
   \<and> fst (validateToken (sample_jwtVerify issued_tokens True) production_cfg 2500
           (new_DescopeService production_cfg) ''t1-forged'')
     = Inl ''Token validation failed: signature verification failed''"
  by (simp add: sample_defs development_cfg_def development_env_def validateToken_def
                getMockClaims_def Let_def)

text \<open>
  Claim C4, amended. Outside the mock branch (project id set, posture other than
  \<^verbatim>\<open>development\<close>), every well-formed token whose expiry is less than or equal to the
  current time at verification is denied, whether its signature is valid or not. When
  the signature step fails, the denial carries the message of that step. When the
  signature is valid, the claims set is validated and the token is denied; the reason is
  the expiry, \<^verbatim>\<open>Token validation failed: "exp" claim timestamp check failed\<close>, once the
  issuer, audience and not-before checks, which come first, have passed.
\<close>

theorem expired_token_denied_outside_mock_branch:
  assumes "projectId svc \<noteq> []" and "nodeEnv cfg \<noteq> ''development''"
    and "payload_exp p = Some e" and "e \<le> now"
  shows \<open>(\<forall>m. compactVerify token (fst (getJWKS svc)) = Inl m
             \<longrightarrow> fst (validateToken (jose_jwtVerify compactVerify) cfg now svc token)
                 = Inl (''Token validation failed: '' @ m))
         \<and> (compactVerify token (fst (getJWKS svc)) = Inr p
             \<longrightarrow> (\<exists>m. fst (validateToken (jose_jwtVerify compactVerify) cfg now svc token)
                        = Inl (''Token validation failed: '' @ m)))
         \<and> (compactVerify token (fst (getJWKS svc)) = Inr p
             \<and> payload_iss p = Some (''https://api.descope.com/'' @ projectId svc)
             \<and> payload_aud p = Some (projectId svc)
             \<and> (payload_nbf p = None \<or> the (payload_nbf p) \<le> now)
             \<longrightarrow> fst (validateToken (jose_jwtVerify compactVerify) cfg now svc token)
                 = Inl ''Token validation failed: "exp" claim timestamp check failed'')\<close>
proof -
  let ?ks = "fst (getJWKS svc)"
  let ?opts = "\<lparr> issuer = ''https://api.descope.com/'' @ projectId svc,
                  audience = projectId svc \<rparr>"
  let ?vt = "fst (validateToken (jose_jwtVerify compactVerify) cfg now svc token)"
  have expired: "\<exists>m. validate_claims p ?opts now = Inl m"
    using assms(3,4) by (simp add: validate_claims_def)
  have bad: "?vt = Inl (''Token validation failed: '' @ m)"
    if "compactVerify token ?ks = Inl m" for m
  proof -
    from that have "jose_jwtVerify compactVerify token ?ks ?opts now = Inl m"
      by (simp add: jose_jwtVerify_def)
    from validateToken_rejected
           [where J = "jose_jwtVerify compactVerify" and token = token, OF assms(1) assms(2) this]
    show ?thesis by simp
  qed
  have good: "\<exists>m. ?vt = Inl (''Token validation failed: '' @ m)"
    if "compactVerify token ?ks = Inr p"
  proof -
    from expired obtain m where "validate_claims p ?opts now = Inl m" ..
    with that have "jose_jwtVerify compactVerify token ?ks ?opts now = Inl m"
      by (simp add: jose_jwtVerify_def)
    from validateToken_rejected
           [where J = "jose_jwtVerify compactVerify" and token = token, OF assms(1) assms(2) this]
    show ?thesis by simp
  qed
  have reason: \<open>?vt = Inl ''Token validation failed: "exp" claim timestamp check failed''\<close>
    if "compactVerify token ?ks = Inr p"
      and "payload_iss p = Some (''https://api.descope.com/'' @ projectId svc)"
      and "payload_aud p = Some (projectId svc)"
      and "payload_nbf p = None \<or> the (payload_nbf p) \<le> now"
  proof -
    from that(2,3,4) assms(3,4)
    have \<open>validate_claims p ?opts now = Inl ''"exp" claim timestamp check failed''\<close>
      by (auto simp: validate_claims_def)
    with that(1)
    have \<open>jose_jwtVerify compactVerify token ?ks ?opts now
            = Inl ''"exp" claim timestamp check failed''\<close>
      by (simp add: jose_jwtVerify_def)
    from validateToken_rejected
           [where J = "jose_jwtVerify compactVerify" and token = token, OF assms(1) assms(2) this]
    show ?thesis by simp
  qed
  from bad good reason show ?thesis by blast
qed

theorem expired_token_denied_witness:
  \<open>projectId (new_DescopeService production_cfg) \<noteq> []
   \<and> nodeEnv production_cfg \<noteq> ''development''
   \<and> payload_exp p1_payload = Some 2000
   \<and> sample_compactVerify issued_tokens True ''t1''
       (fst (getJWKS (new_DescopeService production_cfg))) = Inr p1_payload
   \<and> fst (validateToken (jose_jwtVerify (sample_compactVerify issued_tokens True))
           production_cfg 2000 (new_DescopeService production_cfg) ''t1'')
     = Inl ''Token validation failed: "exp" claim timestamp check failed''
   \<and> sample_compactVerify issued_tokens True ''t1-forged''
       (fst (getJWKS (new_DescopeService production_cfg)))
     = Inl ''signature verification failed''
   \<and> fst (validateToken (jose_jwtVerify (sample_compactVerify issued_tokens True))
           production_cfg 2000 (new_DescopeService production_cfg) ''t1-forged'')
     = Inl ''Token validation failed: signature verification failed''\<close>
proof -
  let ?svc = "new_DescopeService production_cfg"
  let ?cv = "sample_compactVerify issued_tokens True"
  have h1: "projectId ?svc \<noteq> []" by (simp add: sample_defs)
  have h2: "nodeEnv production_cfg \<noteq> ''development''" by (simp add: sample_defs)
  have h3: "payload_exp p1_payload = Some 2000" by (simp add: sample_defs)
  have h4: "(2000::int) \<le> 2000" by simp
  have v: "?cv ''t1'' (fst (getJWKS ?svc)) = Inr p1_payload"
    by (simp add: sample_defs)
  have i: "payload_iss p1_payload = Some (''https://api.descope.com/'' @ projectId ?svc)"
    by (simp add: sample_defs)
  have a: "payload_aud p1_payload = Some (projectId ?svc)"
    by (simp add: sample_defs)
  have n: "payload_nbf p1_payload = None \<or> the (payload_nbf p1_payload) \<le> 2000"
    by (simp add: sample_defs)
  have f: "?cv ''t1-forged'' (fst (getJWKS ?svc)) = Inl ''signature verification failed''"
    by (simp add: sample_defs)
  from expired_token_denied_outside_mock_branch
         [where compactVerify = ?cv and token = "''t1''", OF h1 h2 h3 h4] v i a n
  have 1: \<open>fst (validateToken (jose_jwtVerify ?cv) production_cfg 2000 ?svc ''t1'')
             = Inl ''Token validation failed: "exp" claim timestamp check failed''\<close>
    by blast
  from expired_token_denied_outside_mock_branch
         [where compactVerify = ?cv and token = "''t1-forged''", OF h1 h2 h3 h4] f
  have 2: "fst (validateToken (jose_jwtVerify ?cv) production_cfg 2000 ?svc ''t1-forged'')
             = Inl (''Token validation failed: '' @ ''signature verification failed'')"
    by blast
  from h1 h2 h3 v f 1 2 show ?thesis by simp
qed

subsection \<open>Absent claims\<close>




end
